theory Spec2Isabelle
  imports Main "HOL-Library.Word"
begin

unbundle bit_operations_syntax

section \<open>Python values and exceptions\<close>

text \<open>
  DataDrift (\<^verbatim>\<open>src/main.py\<close>) is one Qt widget class, \<^verbatim>\<open>SCPClientApp\<close>, and one item
  model, \<^verbatim>\<open>RemoteFileModel\<close>. The embedding passes the widget's attributes around as a
  record, and everything behind paramiko, scp and Qt as a second record (the remote side)
  plus one argument per library call that says how the library answered that call.

  Paths, names and messages are \<^typ>\<open>string\<close>s. File contents are bytes; the editor's text
  is a list of Unicode code points, so that \<^verbatim>\<open>bytes.decode()\<close> and \<^verbatim>\<open>str.encode()\<close> are
  functions between two different types, as in Python.
\<close>

type_synonym byte = "8 word"
type_synonym bytes = "byte list"
type_synonym unicode = "nat list"

text \<open>
  The exception classes the code can meet. \<open>IOError\<close> is the class \<^verbatim>\<open>is_directory\<close>
  catches (in Python 3 an alias of \<^verbatim>\<open>OSError\<close>); \<open>OtherException\<close> stands for any other
  subclass of \<^verbatim>\<open>Exception\<close> a library call raises (paramiko's \<^verbatim>\<open>SSHException\<close>,
  \<^verbatim>\<open>EOFError\<close>, ...). The string is \<^verbatim>\<open>str(e)\<close>, which the dialogs print.
\<close>

datatype exn_kind =
  IOError | AttributeError | IndexError | TypeError
  | UnicodeDecodeError | UnicodeEncodeError | OtherException

datatype exn = Exn (kind: exn_kind) (msg: string)

text \<open>How the library answered one call: it raised, or it returned a value.\<close>

datatype 'a outcome = Raises exn | Returns 'a

text \<open>
  The texts of the exceptions that the Python runtime itself raises in this code, as
  Python 3.9 and later word them (the code needs 3.9 for \<^verbatim>\<open>asyncio.to_thread\<close>): an
  attribute looked up on \<^verbatim>\<open>None\<close>, an index into an empty list, and \<^verbatim>\<open>os.path.join\<close>
  given \<^verbatim>\<open>None\<close>. \<open>quoted\<close> puts a text between two single quotes.
\<close>

definition quoted :: "string \<Rightarrow> string" where
  "quoted s = CHR 0x27 # s @ [CHR 0x27]"

definition none_has_no_attribute :: "string \<Rightarrow> exn" where
  "none_has_no_attribute name =
     Exn AttributeError (quoted ''NoneType'' @ '' object has no attribute '' @ quoted name)"

definition list_index_out_of_range :: exn where
  "list_index_out_of_range = Exn IndexError ''list index out of range''"

definition join_given_none :: exn where
  "join_given_none =
     Exn TypeError (''join() argument must be str, bytes, or os.PathLike object, not ''
                    @ quoted ''NoneType'')"

text \<open>
  \<^verbatim>\<open>is_directory\<close> returns either the integer \<^verbatim>\<open>st_mode & 0o040000\<close> or \<^verbatim>\<open>False\<close>; its
  caller only tests the truth value.
\<close>

datatype pyval = PyInt int | PyFalse

fun truthy :: "pyval \<Rightarrow> bool" where
  "truthy (PyInt n) = (n \<noteq> 0)"
| "truthy PyFalse = False"

text \<open>
  \<^verbatim>\<open>os.path.join(a, b)\<close> with two arguments, as \<^verbatim>\<open>posixpath.join\<close> computes it: an
  absolute \<open>b\<close> replaces \<open>a\<close>; otherwise the two are glued with one separator, unless
  \<open>a\<close> is empty or already ends with one.
\<close>

definition os_path_join :: "string \<Rightarrow> string \<Rightarrow> string" where
  "os_path_join a b =
     (if b \<noteq> [] \<and> hd b = CHR ''/'' then b
      else if a = [] \<or> last a = CHR ''/'' then a @ b
      else a @ ''/'' @ b)"

subsection \<open>UTF-8, as \<^verbatim>\<open>bytes.decode()\<close> and \<^verbatim>\<open>str.encode()\<close> use it\<close>

definition is_cont :: "nat \<Rightarrow> bool" where
  "is_cont c = (128 \<le> c \<and> c < 192)"

definition is_surrogate :: "nat \<Rightarrow> bool" where
  "is_surrogate cp = (55296 \<le> cp \<and> cp < 57344)"

text \<open>
  Strict decoding of a list of byte values: \<open>None\<close> is \<^verbatim>\<open>UnicodeDecodeError\<close>. Overlong
  forms, surrogates, code points past U+10FFFF, stray continuation bytes and truncated
  sequences are all refused.
\<close>

fun decode_utf8 :: "nat list \<Rightarrow> unicode option" where
  "decode_utf8 [] = Some []"
| "decode_utf8 (b # bs) =
     (if b < 128 then map_option ((#) b) (decode_utf8 bs)
      else if 194 \<le> b \<and> b < 224 then
        (case bs of
           c1 # r \<Rightarrow>
             if is_cont c1
             then map_option ((#) ((b - 192) * 64 + (c1 - 128))) (decode_utf8 r)
             else None
         | _ \<Rightarrow> None)
      else if 224 \<le> b \<and> b < 240 then
        (case bs of
           c1 # c2 # r \<Rightarrow>
             (let cp = (b - 224) * 4096 + (c1 - 128) * 64 + (c2 - 128)
              in if is_cont c1 \<and> is_cont c2 \<and> 2048 \<le> cp \<and> \<not> is_surrogate cp
                 then map_option ((#) cp) (decode_utf8 r)
                 else None)
         | _ \<Rightarrow> None)
      else if 240 \<le> b \<and> b < 245 then
        (case bs of
           c1 # c2 # c3 # r \<Rightarrow>
             (let cp = (b - 240) * 262144 + (c1 - 128) * 4096 + (c2 - 128) * 64 + (c3 - 128)
              in if is_cont c1 \<and> is_cont c2 \<and> is_cont c3 \<and> 65536 \<le> cp \<and> cp < 1114112
                 then map_option ((#) cp) (decode_utf8 r)
                 else None)
         | _ \<Rightarrow> None)
      else None)"

definition decode :: "bytes \<Rightarrow> unicode option" where
  "decode bs = decode_utf8 (map unat bs)"

text \<open>
  Encoding one code point; \<open>None\<close> is \<^verbatim>\<open>UnicodeEncodeError\<close> (a lone surrogate). A
  Python \<^verbatim>\<open>str\<close> holds no code point past U+10FFFF; the model refuses one.
\<close>

definition encode_cp :: "nat \<Rightarrow> nat list option" where
  "encode_cp cp =
     (if cp < 128 then Some [cp]
      else if cp < 2048 then Some [192 + cp div 64, 128 + cp mod 64]
      else if is_surrogate cp then None
      else if cp < 65536 then
        Some [224 + cp div 4096, 128 + (cp div 64) mod 64, 128 + cp mod 64]
      else if cp < 1114112 then
        Some [240 + cp div 262144, 128 + (cp div 4096) mod 64,
              128 + (cp div 64) mod 64, 128 + cp mod 64]
      else None)"

fun encode_utf8 :: "unicode \<Rightarrow> nat list option" where
  "encode_utf8 [] = Some []"
| "encode_utf8 (cp # cps) =
     (case encode_cp cp of
        None \<Rightarrow> None
      | Some bs \<Rightarrow> map_option ((@) bs) (encode_utf8 cps))"

definition encode :: "unicode \<Rightarrow> bytes option" where
  "encode t = map_option (map of_nat) (encode_utf8 t)"

section \<open>\<^verbatim>\<open>RemoteFileModel\<close>\<close>

text \<open>
  A \<^verbatim>\<open>QModelIndex\<close> is valid when its row and column are not negative and it belongs to a
  model; \<^verbatim>\<open>QModelIndex()\<close> is the invalid index, with row and column \<open>-1\<close> and no model.
\<close>

record QModelIndex =
  row :: int
  column :: int
  has_model :: bool

definition QModelIndex_new :: QModelIndex where
  "QModelIndex_new = \<lparr>row = -1, column = -1, has_model = False\<rparr>"

definition isValid :: "QModelIndex \<Rightarrow> bool" where
  "isValid i = (0 \<le> row i \<and> 0 \<le> column i \<and> has_model i)"

definition createIndex :: "int \<Rightarrow> int \<Rightarrow> QModelIndex" where
  "createIndex r c = \<lparr>row = r, column = c, has_model = True\<rparr>"

text \<open>The model holds one Python list, \<^verbatim>\<open>self._data\<close>.\<close>

record RemoteFileModel =
  model_data :: "string list"

text \<open>\<^verbatim>\<open>self._data = data if data else []\<close>: \<^verbatim>\<open>None\<close> and the empty list both give \<open>[]\<close>.\<close>

definition RemoteFileModel_init :: "string list option \<Rightarrow> RemoteFileModel" where
  "RemoteFileModel_init d =
     (case d of
        None \<Rightarrow> \<lparr>model_data = []\<rparr>
      | Some xs \<Rightarrow> if xs \<noteq> [] then \<lparr>model_data = xs\<rparr> else \<lparr>model_data = []\<rparr>)"

definition rowCount :: "RemoteFileModel \<Rightarrow> QModelIndex \<Rightarrow> int" where
  "rowCount m parent_idx =
     (if \<not> isValid parent_idx then int (length (model_data m)) else 0)"

definition columnCount :: "RemoteFileModel \<Rightarrow> QModelIndex \<Rightarrow> int" where
  "columnCount m parent_idx = 1"

definition DisplayRole :: int where
  "DisplayRole = 0"

text \<open>
  \<^verbatim>\<open>data(index, role)\<close>: \<open>Inr None\<close> is Python's \<^verbatim>\<open>None\<close>; a row past the end of the list
  is the \<^verbatim>\<open>IndexError\<close> of \<^verbatim>\<open>self._data[index.row()]\<close> (a valid index has no negative row).
\<close>

definition data :: "RemoteFileModel \<Rightarrow> QModelIndex \<Rightarrow> int \<Rightarrow> exn + string option" where
  "data m idx role =
     (if \<not> isValid idx then Inr None
      else if role = DisplayRole then
        (if nat (row idx) < length (model_data m)
         then Inr (Some (model_data m ! nat (row idx)))
         else Inl list_index_out_of_range)
      else Inr None)"

text \<open>\<^verbatim>\<open>QAbstractItemModel.hasIndex\<close>, which \<^verbatim>\<open>index\<close> calls.\<close>

definition hasIndex :: "RemoteFileModel \<Rightarrow> int \<Rightarrow> int \<Rightarrow> QModelIndex \<Rightarrow> bool" where
  "hasIndex m r c parent_idx =
     (if r < 0 \<or> c < 0 then False
      else r < rowCount m parent_idx \<and> c < columnCount m parent_idx)"

definition index :: "RemoteFileModel \<Rightarrow> int \<Rightarrow> int \<Rightarrow> QModelIndex \<Rightarrow> QModelIndex" where
  "index m r c parent_idx =
     (if \<not> hasIndex m r c parent_idx then QModelIndex_new else createIndex r c)"

definition parent :: "RemoteFileModel \<Rightarrow> QModelIndex \<Rightarrow> QModelIndex" where
  "parent m idx = QModelIndex_new"

section \<open>What is taken from the libraries as given\<close>

text \<open>
  Four things the code shows or stores are computed inside a library from data, and the
  model does not compute them; they are arguments, so that every theorem holds whatever
  the library returns:
  \<^item> \<open>str_UnicodeDecodeError\<close>: \<^verbatim>\<open>str(e)\<close> of the error \<^verbatim>\<open>bytes.decode()\<close> raises on the given
    bytes (it names the offending byte and its position);
  \<^item> \<open>str_UnicodeEncodeError\<close>: \<^verbatim>\<open>str(e)\<close> of the error \<^verbatim>\<open>str.encode()\<close> raises on the given
    text;
  \<^item> \<open>str_missing_file\<close>: \<^verbatim>\<open>str(e)\<close> of the \<^verbatim>\<open>IOError\<close> paramiko raises when the given path
    holds no file (its text comes from the server);
  \<^item> \<open>setPlainText\<close>: the plain text a \<^verbatim>\<open>QTextEdit\<close> holds, as \<^verbatim>\<open>toPlainText()\<close> returns it,
    once \<^verbatim>\<open>setPlainText\<close> was given the text. The widget is not a perfect store: it
    rewrites line breaks, so that a carriage return, alone or before a line feed, comes
    back as one line feed.
\<close>

record libraries =
  str_UnicodeDecodeError :: "bytes \<Rightarrow> string"
  str_UnicodeEncodeError :: "unicode \<Rightarrow> string"
  str_missing_file :: "string \<Rightarrow> string"
  setPlainText :: "unicode \<Rightarrow> unicode"

section \<open>The application and the remote side\<close>

text \<open>
  What the user is shown: the message boxes (\<^verbatim>\<open>QMessageBox.information\<close>, \<^verbatim>\<open>warning\<close>,
  \<^verbatim>\<open>critical\<close>), each with its title and its text.
\<close>

datatype dialog =
  Information string string
  | Warning string string
  | Critical string string

text \<open>
  The attributes of \<^verbatim>\<open>SCPClientApp\<close> that the remote operations read or write. A
  paramiko or scp object is named by the number of the \<^verbatim>\<open>SSHClient\<close> it was made from;
  \<open>None\<close> is Python's \<^verbatim>\<open>None\<close>. \<open>remote_model\<close> is also the model of \<^verbatim>\<open>remote_tree\<close>:
  the code sets both together. \<open>editor_text\<close> is what \<^verbatim>\<open>text_editor.toPlainText()\<close>
  returns. \<open>dialogs\<close> and \<open>printed\<close> collect, oldest first, the message boxes shown and
  the lines written by \<^verbatim>\<open>print\<close>.
\<close>

record app =
  remote_path :: string
  ssh :: "nat option"
  sftp :: "nat option"
  scp :: "nat option"
  remote_model :: RemoteFileModel
  editor_text :: unicode
  editor_visible :: bool
  status_bar :: string
  dialogs :: "dialog list"
  printed :: "string list"

text \<open>The calls the application makes on paramiko and scp objects.\<close>

datatype call =
  Connect nat string string
  | OpenSftp nat
  | Close nat
  | Listdir nat string
  | Stat nat string
  | Put nat string string
  | Get nat string string
  | OpenFile nat string string
  | Read nat string
  | Write nat string bytes
  | Remove nat string

text \<open>
  The remote side: \<open>next_client\<close> numbers the \<^verbatim>\<open>SSHClient\<close> objects, \<open>transports\<close> are the
  clients whose transport is open, \<open>files\<close> are the contents of the remote regular files by
  path, and \<open>calls\<close> is the trace of library calls, oldest first.
\<close>

record world =
  next_client :: nat
  transports :: "nat list"
  files :: "string \<rightharpoonup> bytes"
  calls :: "call list"

type_synonym result = "exn option \<times> app \<times> world"

definition show_dialog :: "dialog \<Rightarrow> app \<Rightarrow> app" where
  "show_dialog d a = a\<lparr>dialogs := dialogs a @ [d]\<rparr>"

definition print :: "string \<Rightarrow> app \<Rightarrow> app" where
  "print s a = a\<lparr>printed := printed a @ [s]\<rparr>"

definition called :: "call \<Rightarrow> world \<Rightarrow> world" where
  "called c w = w\<lparr>calls := calls w @ [c]\<rparr>"

text \<open>\<^verbatim>\<open>__init__\<close>, and \<^verbatim>\<open>initUI\<close> as far as these attributes go.\<close>

definition init_app :: app where
  "init_app =
     \<lparr>remote_path = ''.'', ssh = None, sftp = None, scp = None,
      remote_model = RemoteFileModel_init None, editor_text = [], editor_visible = False,
      status_bar = [], dialogs = [], printed = []\<rparr>"

definition init_world :: world where
  "init_world = \<lparr>next_client = 0, transports = [], files = Map.empty, calls = []\<rparr>"

subsection \<open>Connecting and disconnecting\<close>

text \<open>
  \<^verbatim>\<open>_connect_ssh_thread\<close>. \<open>env_connect\<close> and \<open>env_sftp\<close> are the answers of
  \<^verbatim>\<open>SSHClient.connect\<close> and \<^verbatim>\<open>open_sftp\<close>. The new client is assigned to \<^verbatim>\<open>self.ssh\<close>
  before \<^verbatim>\<open>connect\<close> is called, so a failed connect leaves an unconnected client there.
  Nothing here calls \<^verbatim>\<open>close\<close> on the client that \<^verbatim>\<open>self.ssh\<close> held before.
\<close>

definition connect_ssh_thread ::
  "string \<Rightarrow> string \<Rightarrow> string \<Rightarrow> unit outcome \<Rightarrow> unit outcome \<Rightarrow> app \<Rightarrow> world \<Rightarrow> result" where
  "connect_ssh_thread host username password env_connect env_sftp a w =
     (let c = next_client w;
          a1 = a\<lparr>ssh := Some c\<rparr>;
          w1 = called (Connect c host username) (w\<lparr>next_client := Suc c\<rparr>)
      in case env_connect of
           Raises e \<Rightarrow> (Some e, a1, w1)
         | Returns _ \<Rightarrow>
             (let w2 = called (OpenSftp c) (w1\<lparr>transports := transports w1 @ [c]\<rparr>)
              in case env_sftp of
                   Raises e \<Rightarrow> (Some e, a1, w2)
                 | Returns _ \<Rightarrow> (None, a1\<lparr>sftp := Some c, scp := Some c\<rparr>, w2)))"

definition populate_remote_file_tree :: "string list \<Rightarrow> app \<Rightarrow> app" where
  "populate_remote_file_tree remote_files a =
     a\<lparr>remote_model := RemoteFileModel_init (Some remote_files),
       status_bar := ''Loaded remote directory: '' @ remote_path a\<rparr>"

text \<open>\<^verbatim>\<open>load_remote_directory\<close>; \<open>env_listdir\<close> is the answer of \<^verbatim>\<open>sftp.listdir\<close>.\<close>

definition load_remote_directory :: "string list outcome \<Rightarrow> app \<Rightarrow> world \<Rightarrow> result" where
  "load_remote_directory env_listdir a w =
     (if ssh a = None \<or> sftp a = None then
        (None,
         show_dialog (Warning ''No Connection''
           ''You must be connected to a server to refresh the remote directory.'') a,
         w)
      else
        (let w1 = called (Listdir (the (sftp a)) (remote_path a)) w
         in case env_listdir of
              Returns remote_files \<Rightarrow> (None, populate_remote_file_tree remote_files a, w1)
            | Raises e \<Rightarrow>
                (None,
                 print (''Error loading remote directory: '' @ msg e)
                   (show_dialog (Critical ''Error''
                      (''Failed to load remote directory: '' @ msg e)) a),
                 w1)))"

text \<open>
  \<^verbatim>\<open>connect_ssh\<close>. The three strings are what the input dialogs returned (the \<^verbatim>\<open>ok\<close>
  flags are ignored by the code); an empty one skips the whole body.
\<close>

definition connect_ssh ::
  "string \<Rightarrow> string \<Rightarrow> string \<Rightarrow> unit outcome \<Rightarrow> unit outcome \<Rightarrow> string list outcome
     \<Rightarrow> app \<Rightarrow> world \<Rightarrow> result" where
  "connect_ssh host username password env_connect env_sftp env_listdir a w =
     (if host \<noteq> [] \<and> username \<noteq> [] \<and> password \<noteq> [] then
        (case connect_ssh_thread host username password env_connect env_sftp a w of
           (Some e, a1, w1) \<Rightarrow>
             (None, show_dialog (Critical ''Connection Failed'' (''Error: '' @ msg e)) a1, w1)
         | (None, a1, w1) \<Rightarrow>
             (let a2 = (show_dialog (Information ''Connection Success''
                          ''Connected to the server successfully!'') a1)
                        \<lparr>status_bar := ''Connected to '' @ host\<rparr>
              in case load_remote_directory env_listdir a2 w1 of
                   (Some e, a3, w3) \<Rightarrow>
                     (None,
                      show_dialog (Critical ''Connection Failed'' (''Error: '' @ msg e)) a3, w3)
                 | (None, a3, w3) \<Rightarrow> (None, a3, w3)))
      else (None, a, w))"

text \<open>
  \<^verbatim>\<open>disconnect_ssh\<close>; \<open>env_close\<close> is the answer of \<^verbatim>\<open>SSHClient.close\<close>. When \<^verbatim>\<open>close\<close>
  raises, the two assignments after it are skipped. \<^verbatim>\<open>self.scp\<close> is never reset.
\<close>

definition disconnect_ssh :: "unit outcome \<Rightarrow> app \<Rightarrow> world \<Rightarrow> result" where
  "disconnect_ssh env_close a w =
     (case ssh a of
        Some c \<Rightarrow>
          (let w1 = called (Close c) w
           in case env_close of
                Returns _ \<Rightarrow>
                  (None,
                   show_dialog (Information ''Disconnected'' ''Disconnected from the server.'')
                     (a\<lparr>sftp := None, ssh := None, status_bar := ''Disconnected''\<rparr>),
                   w1\<lparr>transports := removeAll c (transports w1)\<rparr>)
              | Raises e \<Rightarrow>
                  (None,
                   show_dialog (Critical ''Disconnection Failed''
                     (''Error disconnecting: '' @ msg e)) a,
                   w1))
      | None \<Rightarrow>
          (None,
           show_dialog (Warning ''No Connection'' ''No active connection to disconnect.'') a,
           w))"

subsection \<open>Navigation\<close>

text \<open>
  \<^verbatim>\<open>is_directory\<close>; \<open>env_stat\<close> is the answer of \<^verbatim>\<open>self.sftp.stat(path).st_mode\<close>. Only
  \<^verbatim>\<open>IOError\<close> is caught. With \<^verbatim>\<open>self.sftp\<close> being \<^verbatim>\<open>None\<close> the attribute lookup raises
  \<^verbatim>\<open>AttributeError\<close>, which is not caught.
\<close>

definition is_directory :: "string \<Rightarrow> int outcome \<Rightarrow> app \<Rightarrow> world \<Rightarrow> (exn + pyval) \<times> world" where
  "is_directory path env_stat a w =
     (case sftp a of
        None \<Rightarrow> (Inl (none_has_no_attribute ''stat''), w)
      | Some s \<Rightarrow>
          (let w1 = called (Stat s path) w
           in case env_stat of
                Returns st_mode \<Rightarrow> (Inr (PyInt (st_mode AND 16384)), w1)
              | Raises e \<Rightarrow> if kind e = IOError then (Inr PyFalse, w1) else (Inl e, w1)))"

text \<open>
  \<^verbatim>\<open>remote_directory_navigate\<close>. \<^verbatim>\<open>os.path.join\<close> raises \<^verbatim>\<open>TypeError\<close> when the model's
  \<^verbatim>\<open>data\<close> returned \<^verbatim>\<open>None\<close>. No exception is caught here.
\<close>

definition remote_directory_navigate ::
  "QModelIndex \<Rightarrow> int outcome \<Rightarrow> string list outcome \<Rightarrow> app \<Rightarrow> world \<Rightarrow> result" where
  "remote_directory_navigate idx env_stat env_listdir a w =
     (case data (remote_model a) idx DisplayRole of
        Inl e \<Rightarrow> (Some e, a, w)
      | Inr None \<Rightarrow> (Some join_given_none, a, w)
      | Inr (Some selected_item) \<Rightarrow>
          (let new_path = os_path_join (remote_path a) selected_item
           in case is_directory new_path env_stat a w of
                (Inl e, w1) \<Rightarrow> (Some e, a, w1)
              | (Inr v, w1) \<Rightarrow>
                  if truthy v
                  then load_remote_directory env_listdir (a\<lparr>remote_path := new_path\<rparr>) w1
                  else (None, print (new_path @ '' is not a directory.'') a, w1)))"

subsection \<open>Transfers and editing\<close>

text \<open>
  The three lines that \<^verbatim>\<open>download_file\<close>, \<^verbatim>\<open>open_file\<close>, \<^verbatim>\<open>save_file\<close> and
  \<^verbatim>\<open>delete_file\<close> share: the first selected index of the remote tree (\<^verbatim>\<open>IndexError\<close>
  when nothing is selected), its display name, and the name joined to the current remote
  path. The result is the name and the joined path. These lines stand outside every
  \<^verbatim>\<open>try\<close>, so their exceptions leave the operation.
\<close>

definition selected_remote_file :: "QModelIndex list \<Rightarrow> app \<Rightarrow> exn + (string \<times> string)" where
  "selected_remote_file selectedIndexes a =
     (case selectedIndexes of
        [] \<Rightarrow> Inl list_index_out_of_range
      | remote_index # _ \<Rightarrow>
          (case data (remote_model a) remote_index DisplayRole of
             Inl e \<Rightarrow> Inl e
           | Inr None \<Rightarrow> Inl join_given_none
           | Inr (Some remote_file_name) \<Rightarrow>
               Inr (remote_file_name, os_path_join (remote_path a) remote_file_name)))"

text \<open>
  \<^verbatim>\<open>upload_file\<close>. \<open>local_selection\<close> holds the file paths of the selected indexes of the
  local tree; \<open>env_put\<close> is the answer of \<^verbatim>\<open>scp.put\<close>. The guard tests \<^verbatim>\<open>ssh\<close> and
  \<^verbatim>\<open>sftp\<close>, the call goes through \<^verbatim>\<open>scp\<close>. What \<^verbatim>\<open>put\<close> and \<^verbatim>\<open>get\<close> copy is not
  followed: the local file system is not part of the model.
\<close>

definition upload_file :: "string list \<Rightarrow> unit outcome \<Rightarrow> app \<Rightarrow> world \<Rightarrow> result" where
  "upload_file local_selection env_put a w =
     (if ssh a = None \<or> sftp a = None then
        (None,
         show_dialog (Warning ''No Connection''
           ''You must be connected to a server to upload files.'') a,
         w)
      else
        (case local_selection of
           [] \<Rightarrow> (Some list_index_out_of_range, a, w)
         | local_file_path # _ \<Rightarrow>
             (case scp a of
                None \<Rightarrow>
                  (None,
                   show_dialog (Critical ''Upload Failed''
                     (''Error uploading file: '' @ msg (none_has_no_attribute ''put''))) a,
                   w)
              | Some c \<Rightarrow>
                  (let w1 = called (Put c local_file_path (remote_path a)) w
                   in case env_put of
                        Returns _ \<Rightarrow>
                          (None,
                           show_dialog (Information ''Upload Success''
                             (''Uploaded '' @ local_file_path @ '' to remote server.'')) a,
                           w1)
                      | Raises e \<Rightarrow>
                          (None,
                           show_dialog (Critical ''Upload Failed''
                             (''Error uploading file: '' @ msg e)) a,
                           w1)))))"

text \<open>
  \<^verbatim>\<open>download_file\<close>. \<open>local_download_dir\<close> is what the directory dialog returned (empty
  when the user cancelled); \<open>env_get\<close> is the answer of \<^verbatim>\<open>scp.get\<close>.
\<close>

definition download_file ::
  "QModelIndex list \<Rightarrow> string \<Rightarrow> unit outcome \<Rightarrow> app \<Rightarrow> world \<Rightarrow> result" where
  "download_file selectedIndexes local_download_dir env_get a w =
     (if ssh a = None \<or> sftp a = None then
        (None,
         show_dialog (Warning ''No Connection''
           ''You must be connected to a server to download files.'') a,
         w)
      else
        (case selected_remote_file selectedIndexes a of
           Inl e \<Rightarrow> (Some e, a, w)
         | Inr (remote_file_name, remote_file_path) \<Rightarrow>
             if local_download_dir \<noteq> [] then
               (case scp a of
                  None \<Rightarrow>
                    (None,
                     show_dialog (Critical ''Download Failed''
                       (''Error downloading file: '' @ msg (none_has_no_attribute ''get''))) a,
                     w)
                | Some c \<Rightarrow>
                    (let w1 = called (Get c remote_file_path local_download_dir) w
                     in case env_get of
                          Returns _ \<Rightarrow>
                            (None,
                             show_dialog (Information ''Download Success''
                               (''Downloaded '' @ remote_file_path @ '' to ''
                                  @ local_download_dir @ ''.'')) a,
                             w1)
                        | Raises e \<Rightarrow>
                            (None,
                             show_dialog (Critical ''Download Failed''
                               (''Error downloading file: '' @ msg e)) a,
                             w1)))
             else (None, a, w)))"

text \<open>
  \<^verbatim>\<open>open_file\<close>. \<open>env_open\<close> and \<open>env_read\<close> are the faults of the transport at
  \<^verbatim>\<open>sftp.file(path, 'r')\<close> and at \<^verbatim>\<open>read()\<close> (\<open>None\<close>: no fault). Without a fault, opening a
  path that holds no file raises \<^verbatim>\<open>IOError\<close>, and \<^verbatim>\<open>read()\<close> returns the whole content,
  whatever its length; the code passes no size to \<^verbatim>\<open>read\<close> and compares none. Every
  exception of the \<^verbatim>\<open>try\<close> body, the \<^verbatim>\<open>UnicodeDecodeError\<close> of \<^verbatim>\<open>decode()\<close> included, ends
  in the same message box, which shows its \<^verbatim>\<open>str(e)\<close>. The decoded text goes to the editor
  through \<^verbatim>\<open>setPlainText\<close>.
\<close>

definition open_file ::
  "libraries \<Rightarrow> QModelIndex list \<Rightarrow> exn option \<Rightarrow> exn option \<Rightarrow> app \<Rightarrow> world \<Rightarrow> result" where
  "open_file lib selectedIndexes env_open env_read a w =
     (if ssh a \<noteq> None \<and> sftp a \<noteq> None then
        (case selected_remote_file selectedIndexes a of
           Inl e \<Rightarrow> (Some e, a, w)
         | Inr (remote_file_name, remote_file_path) \<Rightarrow>
             (let failed = (\<lambda>e. show_dialog (Critical ''Error'' (''Error opening file: '' @ msg e)) a);
                  w1 = called (OpenFile (the (sftp a)) remote_file_path ''r'') w
              in case env_open of
                   Some e \<Rightarrow> (None, failed e, w1)
                 | None \<Rightarrow>
                     (case files w remote_file_path of
                        None \<Rightarrow>
                          (None,
                           failed (Exn IOError (str_missing_file lib remote_file_path)),
                           w1)
                      | Some content \<Rightarrow>
                          (let w2 = called (Read (the (sftp a)) remote_file_path) w1
                           in case env_read of
                                Some e \<Rightarrow> (None, failed e, w2)
                              | None \<Rightarrow>
                                  (case decode content of
                                     None \<Rightarrow>
                                       (None,
                                        failed (Exn UnicodeDecodeError
                                          (str_UnicodeDecodeError lib content)),
                                        w2)
                                   | Some file_contents \<Rightarrow>
                                       (None,
                                        a\<lparr>editor_text := setPlainText lib file_contents,
                                          editor_visible := True,
                                          status_bar := ''Opened file: '' @ remote_file_name\<rparr>,
                                        w2))))))
      else
        (None,
         show_dialog (Warning ''No Connection''
           ''You must be connected to a server to open files.'') a,
         w))"

text \<open>
  \<^verbatim>\<open>save_file\<close>. \<open>env_open\<close> is the fault of the transport at \<^verbatim>\<open>sftp.file(path, 'w')\<close>;
  without one the remote file is created or truncated, at the path itself. The editor's
  text is encoded after that, inside the \<^verbatim>\<open>with\<close> block. \<open>env_write\<close> is the fault at
  \<^verbatim>\<open>write\<close> or at the closing of the file: \<open>Some (n, e)\<close> says that \<open>n\<close> bytes reached the
  file before \<open>e\<close> was raised. The code issues no rename and writes no second path.
\<close>

definition save_file ::
  "libraries \<Rightarrow> QModelIndex list \<Rightarrow> exn option \<Rightarrow> (nat \<times> exn) option \<Rightarrow> app \<Rightarrow> world
     \<Rightarrow> result" where
  "save_file lib selectedIndexes env_open env_write a w =
     (if ssh a \<noteq> None \<and> sftp a \<noteq> None then
        (case selected_remote_file selectedIndexes a of
           Inl e \<Rightarrow> (Some e, a, w)
         | Inr (remote_file_name, remote_file_path) \<Rightarrow>
             (let failed = (\<lambda>e. show_dialog (Critical ''Error'' (''Error saving file: '' @ msg e)) a);
                  updated_content = editor_text a;
                  w1 = called (OpenFile (the (sftp a)) remote_file_path ''w'') w
              in case env_open of
                   Some e \<Rightarrow> (None, failed e, w1)
                 | None \<Rightarrow>
                     (let w2 = w1\<lparr>files := (files w1)(remote_file_path \<mapsto> [])\<rparr>
                      in case encode updated_content of
                           None \<Rightarrow>
                             (None,
                              failed (Exn UnicodeEncodeError
                                (str_UnicodeEncodeError lib updated_content)),
                              w2)
                         | Some encoded \<Rightarrow>
                             (let w3 = called (Write (the (sftp a)) remote_file_path encoded) w2
                              in case env_write of
                                   Some (n, e) \<Rightarrow>
                                     (None, failed e,
                                      w3\<lparr>files := (files w3)(remote_file_path \<mapsto> take n encoded)\<rparr>)
                                 | None \<Rightarrow>
                                     (None,
                                      show_dialog (Information ''Save Success''
                                        (''Saved changes to '' @ remote_file_name)) a,
                                      w3\<lparr>files := (files w3)(remote_file_path \<mapsto> encoded)\<rparr>)))))
      else
        (None,
         show_dialog (Warning ''No Connection''
           ''You must be connected to a server to save files.'') a,
         w))"

text \<open>
  \<^verbatim>\<open>delete_file\<close>. \<open>env_remove\<close> is the answer of \<^verbatim>\<open>sftp.remove\<close>, \<open>env_listdir\<close> that of
  the \<^verbatim>\<open>listdir\<close> of the refresh that follows a removal.
\<close>

definition delete_file ::
  "QModelIndex list \<Rightarrow> unit outcome \<Rightarrow> string list outcome \<Rightarrow> app \<Rightarrow> world \<Rightarrow> result" where
  "delete_file selectedIndexes env_remove env_listdir a w =
     (if ssh a \<noteq> None \<and> sftp a \<noteq> None then
        (case selected_remote_file selectedIndexes a of
           Inl e \<Rightarrow> (Some e, a, w)
         | Inr (remote_file_name, remote_file_path) \<Rightarrow>
             (let failed = (\<lambda>e b. show_dialog (Critical ''Error'' (''Error deleting file: '' @ msg e)) b);
                  w1 = called (Remove (the (sftp a)) remote_file_path) w
              in case env_remove of
                   Raises e \<Rightarrow> (None, failed e a, w1)
                 | Returns _ \<Rightarrow>
                     (case load_remote_directory env_listdir a
                             (w1\<lparr>files := (files w1)(remote_file_path := None)\<rparr>) of
                        (Some e, a2, w2) \<Rightarrow> (None, failed e a2, w2)
                      | (None, a2, w2) \<Rightarrow>
                          (None,
                           show_dialog (Information ''Delete Success''
                             (''Deleted '' @ remote_file_name)) a2,
                           w2))))
      else
        (None,
         show_dialog (Warning ''No Connection''
           ''You must be connected to a server to delete files.'') a,
         w))"

subsection \<open>Sequences of connect requests\<close>

text \<open>
  One press of Connect: the three strings typed and the answers of the library calls it
  leads to. \<open>connects\<close> runs a sequence of them, one after the other.
\<close>

record connect_request =
  req_host :: string
  req_username :: string
  req_password :: string
  req_connect :: "unit outcome"
  req_sftp :: "unit outcome"
  req_listdir :: "string list outcome"

definition connect_once :: "connect_request \<Rightarrow> app \<times> world \<Rightarrow> app \<times> world" where
  "connect_once r s =
     snd (connect_ssh (req_host r) (req_username r) (req_password r)
            (req_connect r) (req_sftp r) (req_listdir r) (fst s) (snd s))"

fun connects :: "connect_request list \<Rightarrow> app \<times> world \<Rightarrow> app \<times> world" where
  "connects [] s = s"
| "connects (r # rs) s = connects rs (connect_once r s)"

text \<open>A request whose transport gets opened: no string is empty and \<^verbatim>\<open>connect\<close> returns.\<close>

definition opens_transport :: "connect_request \<Rightarrow> bool" where
  "opens_transport r =
     (req_host r \<noteq> [] \<and> req_username r \<noteq> [] \<and> req_password r \<noteq> []
      \<and> req_connect r = Returns ())"

subsection \<open>Example states\<close>

text \<open>
  A remote side with one file, \<^verbatim>\<open>./notes.txt\<close> holding the two bytes \<^verbatim>\<open>v1\<close>, and the state
  the application reaches from its start by one successful Connect whose listing is
  \<^verbatim>\<open>['notes.txt', 'docs']\<close>.
\<close>

definition example_world :: world where
  "example_world = init_world\<lparr>files := [''./notes.txt'' \<mapsto> [118, 49]]\<rparr>"

definition connected :: "app \<times> world" where
  "connected =
     snd (connect_ssh ''host'' ''user'' ''secret'' (Returns ()) (Returns ())
            (Returns [''notes.txt'', ''docs'']) init_app example_world)"

definition connected_app :: app where
  "connected_app = fst connected"

definition connected_world :: world where
  "connected_world = snd connected"

text \<open>The connected application with \<^verbatim>\<open>v2\<close> typed into the editor.\<close>

definition edited_app :: app where
  "edited_app = connected_app\<lparr>editor_text := [118, 50]\<rparr>"

text \<open>A Connect request that succeeds at every step.\<close>

definition example_request :: connect_request where
  "example_request =
     \<lparr>req_host = ''host'', req_username = ''user'', req_password = ''secret'',
      req_connect = Returns (), req_sftp = Returns (), req_listdir = Returns []\<rparr>"

text \<open>
  What it means for a mode to be a directory's: the file type bits (\<^verbatim>\<open>0o170000\<close>) equal
  \<^verbatim>\<open>0o040000\<close>. This is \<^verbatim>\<open>stat.S_ISDIR\<close> of Python's library; the source does not call it.
\<close>

definition S_ISDIR :: "int \<Rightarrow> bool" where
  "S_ISDIR st_mode = (st_mode AND 61440 = 16384)"

text \<open>The clients on which a trace calls \<^verbatim>\<open>close\<close>, in order.\<close>

fun closed_clients :: "call list \<Rightarrow> nat list" where
  "closed_clients [] = []"
| "closed_clients (Close c # cs) = c # closed_clients cs"
| "closed_clients (_ # cs) = closed_clients cs"

section \<open>Properties\<close>

subsection \<open>Auxiliary facts\<close>

lemma and_dir_bit_of_fmt: "(61440::int) AND 16384 = 16384"
  by simp

lemma and_dir_bit_of_reg: "(32768::int) AND 16384 = 0"
  by simp

text \<open>
  A mode whose file-type bits (\<^verbatim>\<open>0o170000\<close>) say regular file (\<^verbatim>\<open>0o100000\<close>) has the bit
  \<^verbatim>\<open>0o040000\<close> clear.
\<close>

lemma regular_file_dir_bit_clear:
  assumes h: "(m::int) AND 61440 = 32768"
  shows "m AND 16384 = 0"
proof -
  have "m AND 16384 = m AND (61440 AND 16384)" by (simp only: and_dir_bit_of_fmt)
  also have "\<dots> = (m AND 61440) AND 16384" by (simp only: and.assoc)
  also have "\<dots> = 0" by (simp only: h and_dir_bit_of_reg)
  finally show ?thesis .
qed

subsection \<open>The listing model is flat\<close>

text \<open>
  C8. \<^verbatim>\<open>RemoteFileModel\<close> is a flat list: \<^verbatim>\<open>parent\<close> returns the invalid index for every
  index, \<^verbatim>\<open>rowCount\<close> returns 0 for every valid parent index, and so every listed entry
  (the index of a row of the list) has no children and no parent.
\<close>

theorem remote_model_is_flat:
  "parent m idx = QModelIndex_new \<and> \<not> isValid (parent m idx)
   \<and> (isValid p \<longrightarrow> rowCount m p = 0)
   \<and> (0 \<le> r \<and> r < int (length (model_data m)) \<longrightarrow>
        isValid (index m r 0 QModelIndex_new)
        \<and> rowCount m (index m r 0 QModelIndex_new) = 0
        \<and> \<not> isValid (parent m (index m r 0 QModelIndex_new)))"
  by (simp add: parent_def QModelIndex_new_def isValid_def rowCount_def index_def
      hasIndex_def columnCount_def createIndex_def)

theorem remote_model_is_flat_witness:
  "isValid (createIndex 0 0)
   \<and> rowCount \<lparr>model_data = [''a.txt'', ''docs'']\<rparr> (createIndex 0 0) = 0
   \<and> index \<lparr>model_data = [''a.txt'', ''docs'']\<rparr> 1 0 QModelIndex_new = createIndex 1 0
   \<and> rowCount \<lparr>model_data = [''a.txt'', ''docs'']\<rparr> (createIndex 1 0) = 0
   \<and> parent \<lparr>model_data = [''a.txt'', ''docs'']\<rparr> (createIndex 1 0) = QModelIndex_new
   \<and> \<not> isValid QModelIndex_new"
  using remote_model_is_flat [of "\<lparr>model_data = [''a.txt'', ''docs'']\<rparr>" "createIndex 1 0"
      "createIndex 0 0" 1]
  by (simp add: parent_def QModelIndex_new_def isValid_def rowCount_def index_def
      hasIndex_def columnCount_def createIndex_def)

subsection \<open>The connection guard\<close>

text \<open>
  C9. With \<^verbatim>\<open>self.ssh\<close> or \<^verbatim>\<open>self.sftp\<close> being \<^verbatim>\<open>None\<close>, each of the six remote operations
  (refresh, upload, download, open, save, delete) returns without raising, leaves the
  remote side as it was (so the trace of library calls gets no new entry), and changes
  the application only by one more message box, its own warning: the remote path, the
  remote model and the editor are as before.
\<close>

theorem no_connection_guard:
  assumes "ssh a = None \<or> sftp a = None"
  shows "load_remote_directory env_listdir a w =
           (None, a\<lparr>dialogs := dialogs a @ [Warning ''No Connection''
              ''You must be connected to a server to refresh the remote directory.'']\<rparr>, w)
       \<and> upload_file local_selection env_put a w =
           (None, a\<lparr>dialogs := dialogs a @ [Warning ''No Connection''
              ''You must be connected to a server to upload files.'']\<rparr>, w)
       \<and> download_file selectedIndexes local_download_dir env_get a w =
           (None, a\<lparr>dialogs := dialogs a @ [Warning ''No Connection''
              ''You must be connected to a server to download files.'']\<rparr>, w)
       \<and> open_file lib selectedIndexes env_open env_read a w =
           (None, a\<lparr>dialogs := dialogs a @ [Warning ''No Connection''
              ''You must be connected to a server to open files.'']\<rparr>, w)
       \<and> save_file lib selectedIndexes env_open env_write a w =
           (None, a\<lparr>dialogs := dialogs a @ [Warning ''No Connection''
              ''You must be connected to a server to save files.'']\<rparr>, w)
       \<and> delete_file selectedIndexes env_remove env_listdir a w =
           (None, a\<lparr>dialogs := dialogs a @ [Warning ''No Connection''
              ''You must be connected to a server to delete files.'']\<rparr>, w)"
proof -
  have g: "\<not> (ssh a \<noteq> None \<and> sftp a \<noteq> None)" using assms by auto
  have 1: "load_remote_directory env_listdir a w =
           (None, a\<lparr>dialogs := dialogs a @ [Warning ''No Connection''
              ''You must be connected to a server to refresh the remote directory.'']\<rparr>, w)"
    using assms unfolding load_remote_directory_def show_dialog_def by (simp only: if_True)
  have 2: "upload_file local_selection env_put a w =
           (None, a\<lparr>dialogs := dialogs a @ [Warning ''No Connection''
              ''You must be connected to a server to upload files.'']\<rparr>, w)"
    using assms unfolding upload_file_def show_dialog_def by (simp only: if_True)
  have 3: "download_file selectedIndexes local_download_dir env_get a w =
           (None, a\<lparr>dialogs := dialogs a @ [Warning ''No Connection''
              ''You must be connected to a server to download files.'']\<rparr>, w)"
    using assms unfolding download_file_def show_dialog_def by (simp only: if_True)
  have 4: "open_file lib selectedIndexes env_open env_read a w =
           (None, a\<lparr>dialogs := dialogs a @ [Warning ''No Connection''
              ''You must be connected to a server to open files.'']\<rparr>, w)"
    using g unfolding open_file_def show_dialog_def by (simp only: if_False)
  have 5: "save_file lib selectedIndexes env_open env_write a w =
           (None, a\<lparr>dialogs := dialogs a @ [Warning ''No Connection''
              ''You must be connected to a server to save files.'']\<rparr>, w)"
    using g unfolding save_file_def show_dialog_def by (simp only: if_False)
  have 6: "delete_file selectedIndexes env_remove env_listdir a w =
           (None, a\<lparr>dialogs := dialogs a @ [Warning ''No Connection''
              ''You must be connected to a server to delete files.'']\<rparr>, w)"
    using g unfolding delete_file_def show_dialog_def by (simp only: if_False)
  from 1 2 3 4 5 6 show ?thesis by (intro conjI)
qed

text \<open>
  The guard at the start state, where both handles are \<^verbatim>\<open>None\<close>: a row is selected and
  every library call would succeed, and still nothing is called.
\<close>

theorem no_connection_guard_witness:
  "\<forall>lib.
     (ssh init_app = None \<or> sftp init_app = None)
     \<and> load_remote_directory (Returns [''x'']) init_app example_world =
         (None, init_app\<lparr>dialogs := [Warning ''No Connection''
            ''You must be connected to a server to refresh the remote directory.'']\<rparr>,
          example_world)
     \<and> upload_file [''/home/u/report.txt''] (Returns ()) init_app example_world =
         (None, init_app\<lparr>dialogs := [Warning ''No Connection''
            ''You must be connected to a server to upload files.'']\<rparr>, example_world)
     \<and> download_file [createIndex 0 0] ''/tmp'' (Returns ()) init_app example_world =
         (None, init_app\<lparr>dialogs := [Warning ''No Connection''
            ''You must be connected to a server to download files.'']\<rparr>, example_world)
     \<and> open_file lib [createIndex 0 0] None None init_app example_world =
         (None, init_app\<lparr>dialogs := [Warning ''No Connection''
            ''You must be connected to a server to open files.'']\<rparr>, example_world)
     \<and> save_file lib [createIndex 0 0] None None init_app example_world =
         (None, init_app\<lparr>dialogs := [Warning ''No Connection''
            ''You must be connected to a server to save files.'']\<rparr>, example_world)
     \<and> delete_file [createIndex 0 0] (Returns ()) (Returns [''x'']) init_app example_world =
         (None, init_app\<lparr>dialogs := [Warning ''No Connection''
            ''You must be connected to a server to delete files.'']\<rparr>, example_world)"
proof
  fix lib :: libraries
  have h: "ssh init_app = None \<or> sftp init_app = None" by (simp add: init_app_def)
  have d: "dialogs init_app = []" by (simp add: init_app_def)
  show "(ssh init_app = None \<or> sftp init_app = None)
     \<and> load_remote_directory (Returns [''x'']) init_app example_world =
         (None, init_app\<lparr>dialogs := [Warning ''No Connection''
            ''You must be connected to a server to refresh the remote directory.'']\<rparr>,
          example_world)
     \<and> upload_file [''/home/u/report.txt''] (Returns ()) init_app example_world =
         (None, init_app\<lparr>dialogs := [Warning ''No Connection''
            ''You must be connected to a server to upload files.'']\<rparr>, example_world)
     \<and> download_file [createIndex 0 0] ''/tmp'' (Returns ()) init_app example_world =
         (None, init_app\<lparr>dialogs := [Warning ''No Connection''
            ''You must be connected to a server to download files.'']\<rparr>, example_world)
     \<and> open_file lib [createIndex 0 0] None None init_app example_world =
         (None, init_app\<lparr>dialogs := [Warning ''No Connection''
            ''You must be connected to a server to open files.'']\<rparr>, example_world)
     \<and> save_file lib [createIndex 0 0] None None init_app example_world =
         (None, init_app\<lparr>dialogs := [Warning ''No Connection''
            ''You must be connected to a server to save files.'']\<rparr>, example_world)
     \<and> delete_file [createIndex 0 0] (Returns ()) (Returns [''x'']) init_app example_world =
         (None, init_app\<lparr>dialogs := [Warning ''No Connection''
            ''You must be connected to a server to delete files.'']\<rparr>, example_world)"
    using h no_connection_guard [OF h, where w = example_world and lib = lib
        and env_listdir = "Returns [''x'']" and local_selection = "[''/home/u/report.txt'']"
        and env_put = "Returns ()" and selectedIndexes = "[createIndex 0 0]"
        and local_download_dir = "''/tmp''" and env_get = "Returns ()"
        and env_open = None and env_read = None and env_write = None
        and env_remove = "Returns ()"]
    by (simp only: d append_Nil simp_thms)
qed

subsection \<open>The example states, evaluated\<close>

lemma connected_app_eq:
  "connected_app =
     \<lparr>remote_path = ''.'', ssh = Some 0, sftp = Some 0, scp = Some 0,
      remote_model = \<lparr>model_data = [''notes.txt'', ''docs'']\<rparr>,
      editor_text = [], editor_visible = False,
      status_bar = ''Loaded remote directory: .'',
      dialogs = [Information ''Connection Success'' ''Connected to the server successfully!''],
      printed = []\<rparr>"
  by (simp add: connected_app_def connected_def connect_ssh_def connect_ssh_thread_def
      load_remote_directory_def populate_remote_file_tree_def show_dialog_def called_def
      init_app_def example_world_def init_world_def RemoteFileModel_init_def Let_def)

lemma connected_world_eq:
  "connected_world =
     \<lparr>next_client = 1, transports = [0], files = [''./notes.txt'' \<mapsto> [118, 49]],
      calls = [Connect 0 ''host'' ''user'', OpenSftp 0, Listdir 0 ''.'']\<rparr>"
  by (simp add: connected_world_def connected_def connect_ssh_def connect_ssh_thread_def
      load_remote_directory_def populate_remote_file_tree_def show_dialog_def called_def
      init_app_def example_world_def init_world_def RemoteFileModel_init_def Let_def)

lemma connected_app_fields:
  "remote_path connected_app = ''.''" "ssh connected_app = Some 0"
  "sftp connected_app = Some 0" "scp connected_app = Some 0"
  "remote_model connected_app = \<lparr>model_data = [''notes.txt'', ''docs'']\<rparr>"
  "editor_text connected_app = []" "editor_visible connected_app = False"
  "dialogs connected_app =
     [Information ''Connection Success'' ''Connected to the server successfully!'']"
  "printed connected_app = []"
  by (simp_all add: connected_app_eq)

lemma edited_app_fields:
  "remote_path edited_app = ''.''" "ssh edited_app = Some 0"
  "sftp edited_app = Some 0" "scp edited_app = Some 0"
  "editor_text edited_app = [118, 50]"
  "dialogs edited_app =
     [Information ''Connection Success'' ''Connected to the server successfully!'']"
  by (simp_all add: edited_app_def connected_app_eq)

lemma connected_world_fields:
  "next_client connected_world = 1" "transports connected_world = [0]"
  "files connected_world = [''./notes.txt'' \<mapsto> [118, 49]]"
  "calls connected_world = [Connect 0 ''host'' ''user'', OpenSftp 0, Listdir 0 ''.'']"
  by (simp_all add: connected_world_eq)

lemma data_listing:
  "data \<lparr>model_data = [''notes.txt'', ''docs'']\<rparr> (createIndex 0 0) DisplayRole
     = Inr (Some ''notes.txt'')"
  "data \<lparr>model_data = [''notes.txt'', ''docs'']\<rparr> (createIndex 1 0) DisplayRole
     = Inr (Some ''docs'')"
  by (simp_all add: data_def isValid_def createIndex_def DisplayRole_def)

lemma data_connected_0:
  "data (remote_model connected_app) (createIndex 0 0) DisplayRole = Inr (Some ''notes.txt'')"
  by (simp add: connected_app_fields data_listing)

lemma data_connected_1:
  "data (remote_model connected_app) (createIndex 1 0) DisplayRole = Inr (Some ''docs'')"
  by (simp add: connected_app_fields data_listing)

lemma join_notes: "os_path_join ''.'' ''notes.txt'' = ''./notes.txt''"
  by (simp add: os_path_join_def)

lemma join_docs: "os_path_join ''.'' ''docs'' = ''./docs''"
  by (simp add: os_path_join_def)

lemma selected_notes:
  "selected_remote_file [createIndex 0 0] connected_app = Inr (''notes.txt'', ''./notes.txt'')"
  by (simp add: selected_remote_file_def data_listing connected_app_fields join_notes)

lemma selected_notes_edited:
  "selected_remote_file [createIndex 0 0] edited_app = Inr (''notes.txt'', ''./notes.txt'')"
  by (simp add: selected_remote_file_def edited_app_def connected_app_eq data_def isValid_def
      createIndex_def DisplayRole_def os_path_join_def)

text \<open>\<^verbatim>\<open>0o100644\<close> and \<^verbatim>\<open>0o100600\<close> are regular files, \<^verbatim>\<open>0o040755\<close> is a directory.\<close>

lemma mode_644_regular: "(33188::int) AND 61440 = 32768"
  by simp

lemma mode_600_regular: "(33152::int) AND 61440 = 32768"
  by simp

lemma mode_644_bit: "(33188::int) AND 16384 = 0"
  by simp

lemma mode_755_dir_bit: "(16877::int) AND 16384 = 16384"
  by simp

lemma encode_v2: "encode [118, 50] = Some [118, 50]"
  by (simp add: encode_def encode_cp_def)

lemma decode_v1: "decode [118, 49] = Some [118, 49]"
  by (simp add: decode_def)

lemma decode_invalid: "decode [255, 254] = None"
  by (simp add: decode_def)

lemma decode_ascii: "decode (replicate n 97) = Some (replicate n 97)"
  by (induction n) (simp_all add: decode_def)

lemma closed_clients_append:
  "closed_clients (xs @ ys) = closed_clients xs @ closed_clients ys"
  by (induction xs rule: closed_clients.induct) simp_all

text \<open>One Connect request: what it does to the open transports and to the closed clients.\<close>

lemma connect_once_step:
  "transports (snd (connect_once r (a, w))) =
     transports w @ (if opens_transport r then [next_client w] else [])
   \<and> closed_clients (calls (snd (connect_once r (a, w)))) = closed_clients (calls w)"
  by (cases "req_connect r"; cases "req_sftp r"; cases "req_listdir r")
     (simp_all add: connect_once_def connect_ssh_def connect_ssh_thread_def
      load_remote_directory_def populate_remote_file_tree_def show_dialog_def print_def
      called_def opens_transport_def closed_clients_append Let_def)

lemma connect_once_handles:
  assumes "opens_transport r" and "req_sftp r = Returns ()"
  shows "ssh (fst (connect_once r (a, w))) = Some (next_client w)
       \<and> sftp (fst (connect_once r (a, w))) = Some (next_client w)
       \<and> scp (fst (connect_once r (a, w))) = Some (next_client w)"
  using assms
  by (cases "req_listdir r")
     (simp_all add: connect_once_def connect_ssh_def connect_ssh_thread_def
      load_remote_directory_def populate_remote_file_tree_def show_dialog_def print_def
      called_def opens_transport_def Let_def)

lemma connects_transports:
  "closed_clients (calls (snd (connects rs (a, w)))) = closed_clients (calls w)
   \<and> length (transports (snd (connects rs (a, w))))
       = length (transports w) + length (filter opens_transport rs)
   \<and> take (length (transports w)) (transports (snd (connects rs (a, w)))) = transports w"
proof (induction rs arbitrary: a w)
  case Nil
  then show ?case by simp
next
  case (Cons r rs)
  obtain a1 w1 where s1: "connect_once r (a, w) = (a1, w1)" by (cases "connect_once r (a, w)")
  have st: "transports w1 = transports w @ (if opens_transport r then [next_client w] else [])"
    and cl: "closed_clients (calls w1) = closed_clients (calls w)"
    using connect_once_step [of r a w] s1 by simp_all
  from Cons.IH [of a1 w1] st cl s1 show ?case
    by (auto simp add: take_append dest: arg_cong [where f = "take (length (transports w))"])
qed

lemma connect_once_example:
  "connect_once example_request (a, w) =
     (a\<lparr>ssh := Some (next_client w), sftp := Some (next_client w), scp := Some (next_client w),
        remote_model := \<lparr>model_data = []\<rparr>,
        status_bar := ''Loaded remote directory: '' @ remote_path a,
        dialogs := dialogs a @
          [Information ''Connection Success'' ''Connected to the server successfully!'']\<rparr>,
      w\<lparr>next_client := Suc (next_client w),
        transports := transports w @ [next_client w],
        calls := calls w @ [Connect (next_client w) ''host'' ''user'', OpenSftp (next_client w),
                            Listdir (next_client w) (remote_path a)]\<rparr>)"
  by (simp add: connect_once_def example_request_def connect_ssh_def connect_ssh_thread_def
      load_remote_directory_def populate_remote_file_tree_def show_dialog_def called_def
      RemoteFileModel_init_def Let_def)

subsection \<open>Connecting again\<close>

text \<open>
  C1, as the code has it. No sequence of Connect requests ever calls \<^verbatim>\<open>close\<close>: the
  clients closed are those closed before. Every transport open before the sequence is
  still open after it, and every request whose \<^verbatim>\<open>connect\<close> returns adds one more. A
  request that succeeds at every step makes \<^verbatim>\<open>self.ssh\<close>, \<^verbatim>\<open>self.sftp\<close> and \<^verbatim>\<open>self.scp\<close>
  name the new client, so the application refers to one session only, while the
  transport of the client it referred to before stays open beside the new one.
\<close>

theorem connect_keeps_prior_transports_open:
  "closed_clients (calls (snd (connects rs (a, w)))) = closed_clients (calls w)
   \<and> length (transports (snd (connects rs (a, w))))
       = length (transports w) + length (filter opens_transport rs)
   \<and> take (length (transports w)) (transports (snd (connects rs (a, w)))) = transports w
   \<and> (opens_transport r \<and> req_sftp r = Returns () \<longrightarrow>
        ssh (fst (connect_once r (a, w))) = Some (next_client w)
        \<and> sftp (fst (connect_once r (a, w))) = Some (next_client w)
        \<and> scp (fst (connect_once r (a, w))) = Some (next_client w)
        \<and> transports (snd (connect_once r (a, w))) = transports w @ [next_client w])"
  using connects_transports [of rs a w] connect_once_step [of r a w]
    connect_once_handles [of r a w]
  by simp

theorem connect_keeps_prior_transports_open_witness:
  "opens_transport example_request \<and> req_sftp example_request = Returns ()
   \<and> closed_clients (calls (snd (connects [example_request, example_request]
        (init_app, init_world)))) = []
   \<and> length (transports (snd (connects [example_request, example_request]
        (init_app, init_world)))) = 2
   \<and> ssh (fst (connect_once example_request (init_app, init_world))) = Some 0
   \<and> transports (snd (connect_once example_request (init_app, init_world))) = [0]"
proof -
  have h: "opens_transport example_request \<and> req_sftp example_request = Returns ()"
    by (simp add: opens_transport_def example_request_def)
  show ?thesis
    using h connect_keeps_prior_transports_open
      [of "[example_request, example_request]" init_app init_world example_request]
    by (simp add: init_world_def)
qed

text \<open>
  Two successful Connects from the start: both transports are open together, the first
  one was never closed, and the application holds the second client only.
\<close>

theorem two_connects_two_live_transports:
  "transports (snd (connects [example_request, example_request] (init_app, init_world)))
     = [0, 1]
   \<and> closed_clients (calls (snd (connects [example_request, example_request]
        (init_app, init_world)))) = []
   \<and> ssh (fst (connects [example_request, example_request] (init_app, init_world))) = Some 1"
  by (simp add: connect_once_example init_world_def init_app_def)

subsection \<open>Navigating to a regular file\<close>

text \<open>
  C2, as the code has it. For a selected entry whose \<^verbatim>\<open>stat\<close> reports a regular file,
  \<^verbatim>\<open>remote_directory_navigate\<close> raises nothing and shows no message box: it prints
  one line, \<^verbatim>\<open><path> is not a directory.\<close>, and returns. It lists nothing (the only library
  call is the \<^verbatim>\<open>stat\<close>), and the remote path and the remote model stay as they were.
\<close>

theorem navigate_to_regular_file:
  assumes "sftp a = Some s"
    and "data (remote_model a) idx DisplayRole = Inr (Some name)"
    and "st_mode AND 61440 = 32768"
  shows "remote_directory_navigate idx (Returns st_mode) env_listdir a w =
           (None,
            a\<lparr>printed := printed a @ [os_path_join (remote_path a) name @ '' is not a directory.'']\<rparr>,
            w\<lparr>calls := calls w @ [Stat s (os_path_join (remote_path a) name)]\<rparr>)"
  using assms(1,2) regular_file_dir_bit_clear [OF assms(3)]
  by (simp add: remote_directory_navigate_def is_directory_def print_def called_def Let_def)

theorem navigate_to_regular_file_witness:
  "remote_directory_navigate (createIndex 0 0) (Returns 33152) (Returns [''x''])
       connected_app connected_world =
     (None,
      connected_app\<lparr>printed := [''./notes.txt is not a directory.'']\<rparr>,
      connected_world\<lparr>calls := [Connect 0 ''host'' ''user'', OpenSftp 0, Listdir 0 ''.'',
                                 Stat 0 ''./notes.txt'']\<rparr>)"
  using navigate_to_regular_file [of connected_app 0 "createIndex 0 0" "''notes.txt''" 33152
      "Returns [''x'']" connected_world]
  by (simp add: connected_app_fields connected_world_fields data_listing join_notes
      mode_600_regular)

text \<open>
  Navigation to \<^verbatim>\<open>notes.txt\<close>, a regular file of mode \<^verbatim>\<open>0o100644\<close>: no exception reaches the
  caller, no message box is shown, and the failure is a printed line only.
\<close>

theorem navigate_to_regular_file_only_prints:
  "fst (remote_directory_navigate (createIndex 0 0) (Returns 33188) (Returns [''x''])
          connected_app connected_world) = None
   \<and> dialogs (fst (snd (remote_directory_navigate (createIndex 0 0) (Returns 33188)
          (Returns [''x'']) connected_app connected_world))) = dialogs connected_app
   \<and> printed (fst (snd (remote_directory_navigate (createIndex 0 0) (Returns 33188)
          (Returns [''x'']) connected_app connected_world)))
       = [''./notes.txt is not a directory.'']"
  by (simp add: remote_directory_navigate_def data_listing is_directory_def
      connected_app_fields join_notes mode_644_bit print_def called_def Let_def)

subsection \<open>Saving the editor's text\<close>

text \<open>
  C3, as the code has it. \<^verbatim>\<open>save_file\<close> writes in place: it opens the selected path
  itself for writing and writes the encoded text there; the trace of a save holds that
  open and that write and nothing else. With no fault the file ends with exactly the new
  content. A fault at the opening leaves every remote file as it was. A fault after the
  opening leaves, at the path, the bytes that had reached the file: a prefix of the new
  content, not the prior content.
\<close>

theorem save_file_writes_in_place:
  assumes "ssh a \<noteq> None" and "sftp a = Some s"
    and "selected_remote_file selectedIndexes a = Inr (name, path)"
    and "encode (editor_text a) = Some encoded"
  shows "save_file lib selectedIndexes None None a w =
           (None,
            a\<lparr>dialogs := dialogs a @ [Information ''Save Success'' (''Saved changes to '' @ name)]\<rparr>,
            w\<lparr>files := (files w)(path \<mapsto> encoded),
              calls := calls w @ [OpenFile s path ''w'', Write s path encoded]\<rparr>)
       \<and> files (snd (snd (save_file lib selectedIndexes (Some e) env_write a w))) = files w
       \<and> files (snd (snd (save_file lib selectedIndexes None (Some (n, e)) a w))) =
           (files w)(path \<mapsto> take n encoded)"
  using assms
  by (simp add: save_file_def show_dialog_def called_def Let_def)

theorem save_file_writes_in_place_witness:
  "\<forall>lib.
     save_file lib [createIndex 0 0] None None edited_app connected_world =
       (None,
        edited_app\<lparr>dialogs := dialogs edited_app @
           [Information ''Save Success'' ''Saved changes to notes.txt'']\<rparr>,
        connected_world\<lparr>files := (files connected_world)(''./notes.txt'' \<mapsto> [118, 50]),
          calls := calls connected_world @
            [OpenFile 0 ''./notes.txt'' ''w'', Write 0 ''./notes.txt'' [118, 50]]\<rparr>)
     \<and> files (snd (snd (save_file lib [createIndex 0 0] (Some (Exn IOError ''Permission denied''))
          None edited_app connected_world))) = files connected_world
     \<and> files (snd (snd (save_file lib [createIndex 0 0] None
          (Some (0, Exn IOError ''Permission denied'')) edited_app connected_world))) =
         (files connected_world)(''./notes.txt'' \<mapsto> [])"
proof
  fix lib :: libraries
  have h1: "ssh edited_app \<noteq> None" by (simp add: edited_app_fields)
  have h2: "sftp edited_app = Some 0" by (simp add: edited_app_fields)
  have h4: "encode (editor_text edited_app) = Some [118, 50]"
    by (simp add: edited_app_fields encode_v2)
  show "save_file lib [createIndex 0 0] None None edited_app connected_world =
       (None,
        edited_app\<lparr>dialogs := dialogs edited_app @
           [Information ''Save Success'' ''Saved changes to notes.txt'']\<rparr>,
        connected_world\<lparr>files := (files connected_world)(''./notes.txt'' \<mapsto> [118, 50]),
          calls := calls connected_world @
            [OpenFile 0 ''./notes.txt'' ''w'', Write 0 ''./notes.txt'' [118, 50]]\<rparr>)
     \<and> files (snd (snd (save_file lib [createIndex 0 0] (Some (Exn IOError ''Permission denied''))
          None edited_app connected_world))) = files connected_world
     \<and> files (snd (snd (save_file lib [createIndex 0 0] None
          (Some (0, Exn IOError ''Permission denied'')) edited_app connected_world))) =
         (files connected_world)(''./notes.txt'' \<mapsto> [])"
    using save_file_writes_in_place [OF h1 h2 selected_notes_edited h4,
        where w = connected_world and e = "Exn IOError ''Permission denied''"
          and env_write = None and n = 0 and lib = lib]
    by simp
qed

text \<open>
  A save of \<^verbatim>\<open>v2\<close> over \<^verbatim>\<open>v1\<close> whose write fails after one byte: the file holds \<^verbatim>\<open>v\<close>,
  which is neither the prior content nor the new one.
\<close>

theorem save_file_not_atomic:
  "\<forall>lib.
     files (snd (snd (save_file lib [createIndex 0 0] None
         (Some (1, Exn OtherException ''Socket is closed'')) edited_app connected_world)))
       ''./notes.txt'' = Some [118]
     \<and> files connected_world ''./notes.txt'' = Some [118, 49]
     \<and> encode (editor_text edited_app) = Some [118, 50]"
  by (simp add: save_file_def selected_notes_edited show_dialog_def called_def Let_def
      edited_app_fields connected_world_fields encode_v2)

subsection \<open>Opening a file in the editor\<close>

text \<open>
  C4, as the code has it. When the bytes of the selected file are not valid UTF-8,
  \<^verbatim>\<open>open_file\<close> raises nothing to its caller: it shows one message box, titled Error, whose
  text is \<^verbatim>\<open>Error opening file: \<close> followed by \<^verbatim>\<open>str(e)\<close> of the \<^verbatim>\<open>UnicodeDecodeError\<close>, and
  leaves the editor as it was. When they are valid, the whole decoded content is handed
  to the editor's \<^verbatim>\<open>setPlainText\<close>, whatever the length of the file: there is no size
  ceiling. In both cases the file is opened and read whole.
\<close>

theorem open_file_reads_whole_file:
  assumes "ssh a \<noteq> None" and "sftp a = Some s"
    and "selected_remote_file selectedIndexes a = Inr (name, path)"
    and "files w path = Some content"
  shows "(decode content = None \<longrightarrow>
            open_file lib selectedIndexes None None a w =
              (None,
               a\<lparr>dialogs := dialogs a @
                    [Critical ''Error''
                       (''Error opening file: '' @ str_UnicodeDecodeError lib content)]\<rparr>,
               w\<lparr>calls := calls w @ [OpenFile s path ''r'', Read s path]\<rparr>))
       \<and> (\<forall>file_contents. decode content = Some file_contents \<longrightarrow>
            open_file lib selectedIndexes None None a w =
              (None,
               a\<lparr>editor_text := setPlainText lib file_contents, editor_visible := True,
                 status_bar := ''Opened file: '' @ name\<rparr>,
               w\<lparr>calls := calls w @ [OpenFile s path ''r'', Read s path]\<rparr>))"
  using assms
  by (simp add: open_file_def show_dialog_def called_def Let_def)

text \<open>
  A file of the two bytes \<^verbatim>\<open>FF FE\<close>, which no UTF-8 text starts with, and the file
  \<^verbatim>\<open>v1\<close>, whatever the libraries answer.
\<close>

theorem open_file_reads_whole_file_witness:
  "\<forall>lib.
     open_file lib [createIndex 0 0] None None connected_app
         (connected_world\<lparr>files := [''./notes.txt'' \<mapsto> [255, 254]]\<rparr>) =
       (None,
        connected_app\<lparr>dialogs := dialogs connected_app @
           [Critical ''Error''
              (''Error opening file: '' @ str_UnicodeDecodeError lib [255, 254])]\<rparr>,
        connected_world\<lparr>files := [''./notes.txt'' \<mapsto> [255, 254]],
          calls := calls connected_world @
            [OpenFile 0 ''./notes.txt'' ''r'', Read 0 ''./notes.txt'']\<rparr>)
     \<and> open_file lib [createIndex 0 0] None None connected_app connected_world =
       (None,
        connected_app\<lparr>editor_text := setPlainText lib [118, 49], editor_visible := True,
          status_bar := ''Opened file: notes.txt''\<rparr>,
        connected_world\<lparr>calls := calls connected_world @
            [OpenFile 0 ''./notes.txt'' ''r'', Read 0 ''./notes.txt'']\<rparr>)"
proof
  fix lib :: libraries
  have h1: "ssh connected_app \<noteq> None" by (simp add: connected_app_fields)
  have h2: "sftp connected_app = Some 0" by (simp add: connected_app_fields)
  have b: "files (connected_world\<lparr>files := [''./notes.txt'' \<mapsto> [255, 254]]\<rparr>) ''./notes.txt''
             = Some [255, 254]"
    by simp
  have t: "files connected_world ''./notes.txt'' = Some [118, 49]"
    by (simp add: connected_world_fields)
  show "open_file lib [createIndex 0 0] None None connected_app
         (connected_world\<lparr>files := [''./notes.txt'' \<mapsto> [255, 254]]\<rparr>) =
       (None,
        connected_app\<lparr>dialogs := dialogs connected_app @
           [Critical ''Error''
              (''Error opening file: '' @ str_UnicodeDecodeError lib [255, 254])]\<rparr>,
        connected_world\<lparr>files := [''./notes.txt'' \<mapsto> [255, 254]],
          calls := calls connected_world @
            [OpenFile 0 ''./notes.txt'' ''r'', Read 0 ''./notes.txt'']\<rparr>)
     \<and> open_file lib [createIndex 0 0] None None connected_app connected_world =
       (None,
        connected_app\<lparr>editor_text := setPlainText lib [118, 49], editor_visible := True,
          status_bar := ''Opened file: notes.txt''\<rparr>,
        connected_world\<lparr>calls := calls connected_world @
            [OpenFile 0 ''./notes.txt'' ''r'', Read 0 ''./notes.txt'']\<rparr>)"
    using open_file_reads_whole_file [OF h1 h2 selected_notes b, where lib = lib]
      open_file_reads_whole_file [OF h1 h2 selected_notes t, where lib = lib]
    by (simp add: decode_invalid decode_v1)
qed

text \<open>
  Whatever ceiling is proposed and whatever the libraries answer, a longer file (of the
  letter \<^verbatim>\<open>a\<close> repeated) is opened without any error, read whole, and its whole decoded
  text is handed to the editor.
\<close>

theorem open_file_has_no_size_ceiling:
  "\<forall>lib ceiling. \<exists>content. ceiling < length content
     \<and> open_file lib [createIndex 0 0] None None connected_app
         (connected_world\<lparr>files := [''./notes.txt'' \<mapsto> content]\<rparr>) =
        (None,
         connected_app\<lparr>editor_text := setPlainText lib (map unat content),
           editor_visible := True, status_bar := ''Opened file: notes.txt''\<rparr>,
         connected_world\<lparr>files := [''./notes.txt'' \<mapsto> content],
           calls := calls connected_world @ [OpenFile 0 ''./notes.txt'' ''r'', Read 0 ''./notes.txt'']\<rparr>)"
proof (intro allI)
  fix lib :: libraries and ceiling :: nat
  have s: "ssh connected_app \<noteq> None \<and> sftp connected_app = Some 0"
    by (simp add: connected_app_fields)
  have "open_file lib [createIndex 0 0] None None connected_app
         (connected_world\<lparr>files := [''./notes.txt'' \<mapsto> replicate (Suc ceiling) 97]\<rparr>) =
        (None,
         connected_app\<lparr>editor_text := setPlainText lib (map unat (replicate (Suc ceiling) (97::byte))),
           editor_visible := True, status_bar := ''Opened file: notes.txt''\<rparr>,
         connected_world\<lparr>files := [''./notes.txt'' \<mapsto> replicate (Suc ceiling) 97],
           calls := calls connected_world @ [OpenFile 0 ''./notes.txt'' ''r'', Read 0 ''./notes.txt'']\<rparr>)"
    using s by (simp add: open_file_def selected_notes decode_ascii called_def Let_def
        del: replicate_Suc)
  then show "\<exists>content. ceiling < length content
     \<and> open_file lib [createIndex 0 0] None None connected_app
         (connected_world\<lparr>files := [''./notes.txt'' \<mapsto> content]\<rparr>) =
        (None,
         connected_app\<lparr>editor_text := setPlainText lib (map unat content),
           editor_visible := True, status_bar := ''Opened file: notes.txt''\<rparr>,
         connected_world\<lparr>files := [''./notes.txt'' \<mapsto> content],
           calls := calls connected_world @ [OpenFile 0 ''./notes.txt'' ''r'', Read 0 ''./notes.txt'']\<rparr>)"
    by (intro exI [where x = "replicate (Suc ceiling) 97"]) simp
qed

subsection \<open>Deleting a file\<close>

text \<open>
  C5, as the code has it. When \<^verbatim>\<open>sftp.remove\<close> returns, \<^verbatim>\<open>delete_file\<close> always goes on
  to refresh: the next library call is the \<^verbatim>\<open>listdir\<close> of the current remote path. When
  that listing returns, the remote model holds exactly the names returned. When it
  raises, the error is shown in a message box, followed by the box that reports the
  deletion, and the remote model stays the one shown before the removal. When
  \<^verbatim>\<open>remove\<close> itself raises, nothing is refreshed.
\<close>

theorem delete_file_refreshes_listing:
  assumes "ssh a \<noteq> None" and "sftp a = Some s"
    and "selected_remote_file selectedIndexes a = Inr (name, path)"
  shows "calls (snd (snd (delete_file selectedIndexes (Returns ()) env_listdir a w))) =
           calls w @ [Remove s path, Listdir s (remote_path a)]
       \<and> files (snd (snd (delete_file selectedIndexes (Returns ()) env_listdir a w))) =
           (files w)(path := None)
       \<and> remote_model (fst (snd (delete_file selectedIndexes (Returns ()) (Returns listing) a w))) =
           RemoteFileModel_init (Some listing)
       \<and> model_data (remote_model (fst (snd
            (delete_file selectedIndexes (Returns ()) (Returns listing) a w)))) = listing
       \<and> remote_model (fst (snd (delete_file selectedIndexes (Returns ()) (Raises e) a w))) =
           remote_model a
       \<and> dialogs (fst (snd (delete_file selectedIndexes (Returns ()) (Raises e) a w))) =
           dialogs a @ [Critical ''Error'' (''Failed to load remote directory: '' @ msg e),
                        Information ''Delete Success'' (''Deleted '' @ name)]
       \<and> delete_file selectedIndexes (Raises e) env_listdir a w =
           (None,
            a\<lparr>dialogs := dialogs a @ [Critical ''Error'' (''Error deleting file: '' @ msg e)]\<rparr>,
            w\<lparr>calls := calls w @ [Remove s path]\<rparr>)"
  using assms
  by (cases env_listdir)
     (auto simp add: delete_file_def load_remote_directory_def populate_remote_file_tree_def
      show_dialog_def print_def called_def RemoteFileModel_init_def Let_def)

theorem delete_file_refreshes_listing_witness:
  "calls (snd (snd (delete_file [createIndex 0 0] (Returns ()) (Returns [''docs''])
       connected_app connected_world))) =
     calls connected_world @ [Remove 0 ''./notes.txt'', Listdir 0 ''.'']
   \<and> files (snd (snd (delete_file [createIndex 0 0] (Returns ()) (Returns [''docs''])
       connected_app connected_world))) ''./notes.txt'' = None
   \<and> model_data (remote_model (fst (snd (delete_file [createIndex 0 0] (Returns ())
       (Returns [''docs'']) connected_app connected_world)))) = [''docs'']"
proof -
  have h1: "ssh connected_app \<noteq> None" by (simp add: connected_app_fields)
  have h2: "sftp connected_app = Some 0" by (simp add: connected_app_fields)
  show ?thesis
    using delete_file_refreshes_listing [OF h1 h2 selected_notes,
        where w = connected_world and env_listdir = "Returns [''docs'']"
          and listing = "[''docs'']" and e = "Exn IOError ''Failure''"]
    by (simp add: connected_app_fields RemoteFileModel_init_def)
qed

text \<open>
  A removal that succeeds, followed by a listing that fails: \<^verbatim>\<open>notes.txt\<close> is gone from
  the remote side and still in the listing shown, under a box that says it was deleted.
\<close>

theorem delete_file_stale_listing:
  "''notes.txt'' \<in> set (model_data (remote_model (fst (snd
      (delete_file [createIndex 0 0] (Returns ()) (Raises (Exn OtherException ''Socket is closed''))
         connected_app connected_world)))))
   \<and> files (snd (snd
      (delete_file [createIndex 0 0] (Returns ()) (Raises (Exn OtherException ''Socket is closed''))
         connected_app connected_world))) ''./notes.txt'' = None
   \<and> last (dialogs (fst (snd
      (delete_file [createIndex 0 0] (Returns ()) (Raises (Exn OtherException ''Socket is closed''))
         connected_app connected_world)))) = Information ''Delete Success'' ''Deleted notes.txt''"
  by (simp add: delete_file_def selected_notes load_remote_directory_def show_dialog_def
      print_def called_def Let_def connected_app_fields connected_world_fields)

subsection \<open>Disconnecting twice\<close>

text \<open>
  C6, as the code has it. \<^verbatim>\<open>disconnect_ssh\<close> never raises, whatever \<^verbatim>\<open>close\<close> does. With
  no session (\<^verbatim>\<open>self.ssh\<close> is \<^verbatim>\<open>None\<close>) it calls nothing and changes nothing but the list
  of message boxes, to which it adds a warning. With a session whose \<^verbatim>\<open>close\<close> returns,
  it sets \<^verbatim>\<open>self.ssh\<close> and \<^verbatim>\<open>self.sftp\<close> to \<^verbatim>\<open>None\<close>, the status bar says Disconnected and
  the client's transport is no longer open. In these two cases \<^verbatim>\<open>self.ssh\<close> is \<^verbatim>\<open>None\<close>
  after the call, and a second call, whatever \<^verbatim>\<open>close\<close> would do, calls nothing and
  changes nothing but the list of message boxes, to which it adds the warning. With a
  session whose \<^verbatim>\<open>close\<close> raises, the call is traced, an error box is added, and every
  attribute, \<^verbatim>\<open>self.ssh\<close> and \<^verbatim>\<open>self.sftp\<close> included, is kept.
\<close>

theorem disconnect_twice_after_close_returned:
  assumes "ssh a = None \<or> env_first = Returns ()"
  shows "fst (disconnect_ssh env a w) = None
       \<and> ssh (fst (snd (disconnect_ssh env_first a w))) = None
       \<and> (\<forall>c. ssh a = Some c \<longrightarrow>
            sftp (fst (snd (disconnect_ssh env_first a w))) = None
            \<and> status_bar (fst (snd (disconnect_ssh env_first a w))) = ''Disconnected''
            \<and> transports (snd (snd (disconnect_ssh env_first a w))) = removeAll c (transports w))
       \<and> (ssh a = None \<longrightarrow>
            disconnect_ssh env_first a w =
              (None,
               a\<lparr>dialogs := dialogs a @
                    [Warning ''No Connection'' ''No active connection to disconnect.'']\<rparr>,
               w))
       \<and> disconnect_ssh env_second (fst (snd (disconnect_ssh env_first a w)))
             (snd (snd (disconnect_ssh env_first a w))) =
           (None,
            (fst (snd (disconnect_ssh env_first a w)))
              \<lparr>dialogs := dialogs (fst (snd (disconnect_ssh env_first a w))) @
                 [Warning ''No Connection'' ''No active connection to disconnect.'']\<rparr>,
            snd (snd (disconnect_ssh env_first a w)))
       \<and> (\<forall>c. ssh a = Some c \<longrightarrow>
            disconnect_ssh (Raises e) a w =
              (None,
               a\<lparr>dialogs := dialogs a @
                    [Critical ''Disconnection Failed'' (''Error disconnecting: '' @ msg e)]\<rparr>,
               w\<lparr>calls := calls w @ [Close c]\<rparr>))"
  using assms
  by (auto simp add: disconnect_ssh_def show_dialog_def called_def Let_def
      split: option.splits outcome.splits)

theorem disconnect_twice_after_close_returned_witness:
  "ssh (fst (snd (disconnect_ssh (Returns ()) connected_app connected_world))) = None
   \<and> sftp (fst (snd (disconnect_ssh (Returns ()) connected_app connected_world))) = None
   \<and> status_bar (fst (snd (disconnect_ssh (Returns ()) connected_app connected_world)))
       = ''Disconnected''
   \<and> transports (snd (snd (disconnect_ssh (Returns ()) connected_app connected_world))) = []
   \<and> disconnect_ssh (Returns ())
        (fst (snd (disconnect_ssh (Returns ()) connected_app connected_world)))
        (snd (snd (disconnect_ssh (Returns ()) connected_app connected_world))) =
       (None,
        (fst (snd (disconnect_ssh (Returns ()) connected_app connected_world)))
          \<lparr>dialogs := dialogs (fst (snd (disconnect_ssh (Returns ()) connected_app
               connected_world))) @
             [Warning ''No Connection'' ''No active connection to disconnect.'']\<rparr>,
        snd (snd (disconnect_ssh (Returns ()) connected_app connected_world)))
   \<and> disconnect_ssh (Raises (Exn OtherException ''Socket is closed''))
        connected_app connected_world =
       (None,
        connected_app\<lparr>dialogs := dialogs connected_app @
           [Critical ''Disconnection Failed'' ''Error disconnecting: Socket is closed'']\<rparr>,
        connected_world\<lparr>calls := calls connected_world @ [Close 0]\<rparr>)"
proof -
  have h: "ssh connected_app = None \<or> (Returns () :: unit outcome) = Returns ()" by simp
  show ?thesis
    using disconnect_twice_after_close_returned [OF h,
        where w = connected_world and env_second = "Returns ()"
          and env = "Raises (Exn OtherException ''Socket is closed'')"
          and e = "Exn OtherException ''Socket is closed''"]
    by (simp add: connected_app_fields connected_world_fields)
qed

text \<open>
  A \<^verbatim>\<open>close\<close> that raises in the first call and returns in the second: after one call
  \<^verbatim>\<open>self.ssh\<close> still holds the client, after two it is \<^verbatim>\<open>None\<close>.
\<close>

theorem disconnect_not_idempotent_when_close_raises:
  "ssh (fst (snd (disconnect_ssh (Raises (Exn OtherException ''Socket is closed''))
          connected_app connected_world))) = Some 0
   \<and> ssh (fst (snd (disconnect_ssh (Returns ())
          (fst (snd (disconnect_ssh (Raises (Exn OtherException ''Socket is closed''))
             connected_app connected_world)))
          (snd (snd (disconnect_ssh (Raises (Exn OtherException ''Socket is closed''))
             connected_app connected_world)))))) = None"
  by (simp add: connected_app_fields disconnect_ssh_def show_dialog_def called_def Let_def)

subsection \<open>The directory test\<close>

text \<open>
  C7. \<^verbatim>\<open>is_directory\<close> answers from the bit \<^verbatim>\<open>0o040000\<close> of \<^verbatim>\<open>st_mode\<close> alone: whatever
  mode \<^verbatim>\<open>stat\<close> returns, the result is that mode masked by the bit. When \<^verbatim>\<open>stat\<close> raises
  \<^verbatim>\<open>IOError\<close> the result is \<^verbatim>\<open>False\<close>, when the bit is clear it is \<^verbatim>\<open>0\<close>: both are falsy,
  both come after the same single library call, and \<^verbatim>\<open>remote_directory_navigate\<close> ends in
  the same state in the two cases, so a missing path and a path that is not a directory
  look the same to the caller.
\<close>

theorem is_directory_conflates_missing_and_non_directory:
  assumes "sftp a = Some s" and "kind e = IOError" and "st_mode AND 16384 = 0"
  shows "is_directory path (Raises e) a w = (Inr PyFalse, called (Stat s path) w)
       \<and> is_directory path (Returns st_mode) a w = (Inr (PyInt 0), called (Stat s path) w)
       \<and> \<not> truthy PyFalse \<and> \<not> truthy (PyInt 0)
       \<and> is_directory path (Returns m) a w = (Inr (PyInt (m AND 16384)), called (Stat s path) w)
       \<and> remote_directory_navigate idx (Raises e) env_listdir a w
           = remote_directory_navigate idx (Returns st_mode) env_listdir a w"
  using assms
  by (simp add: is_directory_def remote_directory_navigate_def Let_def
      split: sum.splits option.splits)

theorem is_directory_conflates_missing_and_non_directory_witness:
  "is_directory ''./notes.txt'' (Raises (Exn IOError ''[Errno 2] No such file''))
       connected_app connected_world =
     (Inr PyFalse, called (Stat 0 ''./notes.txt'') connected_world)
   \<and> is_directory ''./notes.txt'' (Returns 33188) connected_app connected_world =
     (Inr (PyInt 0), called (Stat 0 ''./notes.txt'') connected_world)
   \<and> is_directory ''./notes.txt'' (Returns 16877) connected_app connected_world =
     (Inr (PyInt 16384), called (Stat 0 ''./notes.txt'') connected_world)
   \<and> remote_directory_navigate (createIndex 0 0)
        (Raises (Exn IOError ''[Errno 2] No such file'')) (Returns [''x''])
        connected_app connected_world
       = remote_directory_navigate (createIndex 0 0) (Returns 33188) (Returns [''x''])
           connected_app connected_world"
proof -
  have h1: "sftp connected_app = Some 0" by (simp add: connected_app_fields)
  have h2: "kind (Exn IOError ''[Errno 2] No such file'') = IOError" by simp
  show ?thesis
    using is_directory_conflates_missing_and_non_directory [OF h1 h2 mode_644_bit,
        where path = "''./notes.txt''" and w = connected_world and m = 16877
          and idx = "createIndex 0 0" and env_listdir = "Returns [''x'']"]
    by (simp add: mode_755_dir_bit)
qed

subsection \<open>What navigation changes\<close>

text \<open>
  \<^verbatim>\<open>remote_directory_navigate\<close> never changes \<^verbatim>\<open>self.ssh\<close>, \<^verbatim>\<open>self.sftp\<close> or \<^verbatim>\<open>self.scp\<close>,
  however it ends. When the selected entry has a name and \<^verbatim>\<open>is_directory\<close> of the joined
  path returns a value, the remote path afterwards is the joined path (\<^verbatim>\<open>os.path.join\<close>
  of the previous remote path and the name) if that value is truthy, and the previous
  remote path if it is falsy.
\<close>

lemma navigate_path_follows_is_directory:
  assumes "remote_directory_navigate idx env_stat env_listdir a w = (r, a', w')"
  shows "ssh a' = ssh a \<and> sftp a' = sftp a \<and> scp a' = scp a
       \<and> (\<forall>name v w1.
             data (remote_model a) idx DisplayRole = Inr (Some name)
             \<and> is_directory (os_path_join (remote_path a) name) env_stat a w = (Inr v, w1)
             \<longrightarrow> remote_path a'
                   = (if truthy v then os_path_join (remote_path a) name else remote_path a))"
  using assms
  by (auto simp add: remote_directory_navigate_def load_remote_directory_def
      populate_remote_file_tree_def show_dialog_def print_def Let_def
      split: sum.splits option.splits prod.splits if_splits outcome.splits)

text \<open>\<^verbatim>\<open>0o060660\<close> is the mode of a block device: not a directory, and the bit \<^verbatim>\<open>0o040000\<close> is set.\<close>

lemma mode_block_device: "(25008::int) AND 61440 = 24576" "(25008::int) AND 16384 = 16384"
  by simp_all

text \<open>
  C10. The claim, and the docstrings of \<^verbatim>\<open>remote_directory_navigate\<close> (navigate into
  directories) and of \<^verbatim>\<open>is_directory\<close> (check if a remote path is a directory), say that
  the remote path changes for directories only. The code tests one bit of the mode, which
  is also set in the modes of block devices and of sockets. Here the entry \<^verbatim>\<open>docs\<close> is a
  block device of mode \<^verbatim>\<open>0o060660\<close>: the mode is not a directory's, and yet the remote path
  becomes \<^verbatim>\<open>./docs\<close>, the listing of that path is attempted, and when it fails the remote
  path stays changed.
\<close>

theorem navigate_enters_block_device:
  "\<not> S_ISDIR 25008
   \<and> remote_directory_navigate (createIndex 1 0) (Returns 25008)
        (Raises (Exn IOError ''Failure'')) connected_app connected_world =
       (None,
        connected_app\<lparr>remote_path := ''./docs'',
          dialogs := dialogs connected_app @
            [Critical ''Error'' ''Failed to load remote directory: Failure''],
          printed := [''Error loading remote directory: Failure'']\<rparr>,
        connected_world\<lparr>calls := calls connected_world @
            [Stat 0 ''./docs'', Listdir 0 ''./docs'']\<rparr>)"
  by (simp add: S_ISDIR_def mode_block_device remote_directory_navigate_def data_listing
      is_directory_def load_remote_directory_def show_dialog_def print_def called_def
      connected_app_fields join_docs Let_def)

end
